theory Spec2Isabelle
  imports Complex_Main
begin

section \<open>Application state (context/AppStateContext.tsx)\<close>

text \<open>
  A JavaScript number of the cart is a finite value, one of the two infinities or NaN.
  Finite values are added and multiplied exactly: rounding, and a finite sum or product
  that overflows the double range, are not part of the model. An operation with NaN gives
  NaN, as do \<open>Infinity - Infinity\<close> and \<open>Infinity * 0\<close>; every comparison with NaN is
  false. Strings are \<open>string\<close>; \<open>string | null\<close> is \<open>string option\<close>.
\<close>

datatype number = Num real | PosInfinity | NegInfinity | NaN

definition signed_infinity :: "real \<Rightarrow> number" where
  "signed_infinity s = (if 0 < s then PosInfinity else if s < 0 then NegInfinity else NaN)"

instantiation number :: comm_monoid_add
begin

definition zero_number :: number where
  "zero_number = Num 0"

fun plus_number :: "number \<Rightarrow> number \<Rightarrow> number" where
  "plus_number (Num a) (Num b) = Num (a + b)"
| "plus_number NaN _ = NaN"
| "plus_number _ NaN = NaN"
| "plus_number PosInfinity NegInfinity = NaN"
| "plus_number NegInfinity PosInfinity = NaN"
| "plus_number PosInfinity _ = PosInfinity"
| "plus_number _ PosInfinity = PosInfinity"
| "plus_number NegInfinity _ = NegInfinity"
| "plus_number _ NegInfinity = NegInfinity"

instance
proof
  fix x y :: number
  show "0 + x = x"
    by (cases x; simp add: zero_number_def)
  show "x + y = y + x"
    by (cases x; cases y; simp)
next
  fix x y z :: number
  show "x + y + z = x + (y + z)"
    by (cases x; cases y; cases z; simp)
qed

end

instantiation number :: "{times, ord}"
begin

fun times_number :: "number \<Rightarrow> number \<Rightarrow> number" where
  "times_number (Num a) (Num b) = Num (a * b)"
| "times_number NaN _ = NaN"
| "times_number _ NaN = NaN"
| "times_number PosInfinity (Num b) = signed_infinity b"
| "times_number (Num a) PosInfinity = signed_infinity a"
| "times_number NegInfinity (Num b) = signed_infinity (- b)"
| "times_number (Num a) NegInfinity = signed_infinity (- a)"
| "times_number PosInfinity PosInfinity = PosInfinity"
| "times_number NegInfinity NegInfinity = PosInfinity"
| "times_number PosInfinity NegInfinity = NegInfinity"
| "times_number NegInfinity PosInfinity = NegInfinity"

fun less_eq_number :: "number \<Rightarrow> number \<Rightarrow> bool" where
  "less_eq_number (Num a) (Num b) \<longleftrightarrow> a \<le> b"
| "less_eq_number NaN _ \<longleftrightarrow> False"
| "less_eq_number _ NaN \<longleftrightarrow> False"
| "less_eq_number NegInfinity _ \<longleftrightarrow> True"
| "less_eq_number _ PosInfinity \<longleftrightarrow> True"
| "less_eq_number _ _ \<longleftrightarrow> False"

fun less_number :: "number \<Rightarrow> number \<Rightarrow> bool" where
  "less_number (Num a) (Num b) \<longleftrightarrow> a < b"
| "less_number NaN _ \<longleftrightarrow> False"
| "less_number _ NaN \<longleftrightarrow> False"
| "less_number PosInfinity _ \<longleftrightarrow> False"
| "less_number _ NegInfinity \<longleftrightarrow> False"
| "less_number _ _ \<longleftrightarrow> True"

instance ..

end

text \<open>\<open>Number.isFinite\<close>, and \<open>===\<close> on numbers (NaN is not equal to itself).\<close>

fun isFinite :: "number \<Rightarrow> bool" where
  "isFinite (Num a) = True"
| "isFinite _ = False"

definition strict_eq :: "number \<Rightarrow> number \<Rightarrow> bool" where
  "strict_eq a b \<longleftrightarrow> a = b \<and> a \<noteq> NaN"

record Product =
  prod_id :: string
  prod_name :: string
  description :: string
  price :: number
  category :: string
  image_url :: string
  in_stock :: bool
  rating :: "number option"
  reviews_count :: "number option"

text \<open>
  \<open>NewCartItem\<close> is the source's \<open>Omit<CartItem, 'id'>\<close>; \<open>CartItem\<close> adds the field
  \<open>id\<close>, here \<open>item_id\<close>.
\<close>

record NewCartItem =
  product_id :: string
  product_name :: string
  quantity :: number
  unit_price :: number
  total_price :: number

record CartItem = NewCartItem +
  item_id :: string

record AppState =
  sessionId :: "string option"
  searchResults :: "Product list"
  searchHistory :: "string list"
  cartItems :: "CartItem list"
  cartTotal :: number
  isLoading :: bool
  error :: "string option"

datatype AppAction =
    SET_SESSION_ID string
  | SET_SEARCH_RESULTS "Product list"
  | ADD_SEARCH_QUERY string
  | ADD_TO_CART CartItem
  | UPDATE_CART_ITEM string number
  | REMOVE_FROM_CART string
  | CLEAR_CART
  | SET_LOADING bool
  | SET_ERROR "string option"

definition initialState :: AppState where
  "initialState =
     \<lparr> sessionId = None, searchResults = [], searchHistory = [], cartItems = [],
       cartTotal = 0, isLoading = False, error = None \<rparr>"

text \<open>\<open>Array.prototype.findIndex\<close>: the first index whose element satisfies the test, or -1.\<close>

fun findIndex :: "('a \<Rightarrow> bool) \<Rightarrow> 'a list \<Rightarrow> int" where
  "findIndex P [] = -1"
| "findIndex P (x # xs) =
     (if P x then 0 else (let i = findIndex P xs in if i < 0 then -1 else i + 1))"

text \<open>\<open>items.reduce((sum, item) => sum + item.total_price, 0)\<close>.\<close>

definition reduce_total :: "CartItem list \<Rightarrow> number" where
  "reduce_total items = foldl (\<lambda>sum item. sum + total_price item) 0 items"

text \<open>\<open>items.map((item, index) => index === k ? f item : item)\<close>.\<close>

definition map_at :: "int \<Rightarrow> ('a \<Rightarrow> 'a) \<Rightarrow> 'a list \<Rightarrow> 'a list" where
  "map_at k f items =
     map (\<lambda>(index, item). if int index = k then f item else item) (enumerate 0 items)"

fun appReducer :: "AppState \<Rightarrow> AppAction \<Rightarrow> AppState" where
  "appReducer state (SET_SESSION_ID payload) = state\<lparr>sessionId := Some payload\<rparr>"
| "appReducer state (SET_SEARCH_RESULTS payload) = state\<lparr>searchResults := payload\<rparr>"
| "appReducer state (ADD_SEARCH_QUERY payload) =
     (let newHistory = payload # filter (\<lambda>q. q \<noteq> payload) (searchHistory state)
      in state\<lparr>searchHistory := take 10 newHistory\<rparr>)"
| "appReducer state (ADD_TO_CART payload) =
     (let existingItemIndex =
            findIndex (\<lambda>item. product_id item = product_id payload) (cartItems state);
          updatedItems =
            (if existingItemIndex \<ge> 0
             then map_at existingItemIndex
                    (\<lambda>item. item\<lparr>quantity := quantity item + quantity payload,
                                  total_price :=
                                    (quantity item + quantity payload) * unit_price item\<rparr>)
                    (cartItems state)
             else cartItems state @ [payload]);
          newTotal = reduce_total updatedItems
      in state\<lparr>cartItems := updatedItems, cartTotal := newTotal\<rparr>)"
| "appReducer state (UPDATE_CART_ITEM ident qty) =
     (let updatedCartItems =
            map (\<lambda>item. if item_id item = ident
                         then item\<lparr>quantity := qty, total_price := qty * unit_price item\<rparr>
                         else item)
                (cartItems state);
          updatedTotal = reduce_total updatedCartItems
      in state\<lparr>cartItems := updatedCartItems, cartTotal := updatedTotal\<rparr>)"
| "appReducer state (REMOVE_FROM_CART payload) =
     (let filteredItems = filter (\<lambda>item. item_id item \<noteq> payload) (cartItems state);
          filteredTotal = reduce_total filteredItems
      in state\<lparr>cartItems := filteredItems, cartTotal := filteredTotal\<rparr>)"
| "appReducer state CLEAR_CART = state\<lparr>cartItems := [], cartTotal := 0\<rparr>"
| "appReducer state (SET_LOADING payload) = state\<lparr>isLoading := payload\<rparr>"
| "appReducer state (SET_ERROR payload) = state\<lparr>error := payload\<rparr>"

text \<open>The state after dispatching a list of actions, one after the other.\<close>

definition dispatch_all :: "AppState \<Rightarrow> AppAction list \<Rightarrow> AppState" where
  "dispatch_all state actions = foldl appReducer state actions"

subsection \<open>The cart actions of the context value\<close>

text \<open>
  \<open>addToCart\<close> builds the line's id from \<open>Date.now()\<close> and \<open>Math.random()\<close>; the generated
  id is the parameter \<open>new_id\<close>.
\<close>

definition removeFromCart :: "string \<Rightarrow> AppState \<Rightarrow> AppState" where
  "removeFromCart ident state = appReducer state (REMOVE_FROM_CART ident)"

definition addToCart :: "string \<Rightarrow> NewCartItem \<Rightarrow> AppState \<Rightarrow> AppState" where
  "addToCart new_id item state =
     (let cartItem = \<lparr> product_id = product_id item, product_name = product_name item,
                        quantity = quantity item, unit_price = unit_price item,
                        total_price = total_price item, item_id = new_id \<rparr>
      in appReducer state (ADD_TO_CART cartItem))"

definition updateCartItem :: "string \<Rightarrow> number \<Rightarrow> AppState \<Rightarrow> AppState" where
  "updateCartItem ident qty state =
     (if qty \<le> 0 then removeFromCart ident state
      else appReducer state (UPDATE_CART_ITEM ident qty))"

definition clearCart :: "AppState \<Rightarrow> AppState" where
  "clearCart state = appReducer state CLEAR_CART"

datatype CartCall =
    AddToCart string NewCartItem
  | UpdateCartItem string number
  | RemoveFromCart string
  | ClearCart

fun run_call :: "AppState \<Rightarrow> CartCall \<Rightarrow> AppState" where
  "run_call state (AddToCart new_id item) = addToCart new_id item state"
| "run_call state (UpdateCartItem ident qty) = updateCartItem ident qty state"
| "run_call state (RemoveFromCart ident) = removeFromCart ident state"
| "run_call state ClearCart = clearCart state"

definition run_calls :: "AppState \<Rightarrow> CartCall list \<Rightarrow> AppState" where
  "run_calls state calls = foldl run_call state calls"

text \<open>
  The invariant of a cart line in the data model, with a finite quantity: the quantity is
  positive and \<open>total_price === quantity * unit_price\<close>.
\<close>

definition line_ok :: "CartItem \<Rightarrow> bool" where
  "line_ok item \<longleftrightarrow>
     isFinite (quantity item) \<and> quantity item > 0 \<and>
     strict_eq (total_price item) (quantity item * unit_price item)"

text \<open>
  A call whose numbers are in order: \<open>addToCart\<close> with a line that is itself well-formed
  and has a finite quantity, \<open>updateCartItem\<close> with a finite quantity of any sign; the other
  two calls with any argument.
\<close>

fun call_ok :: "CartCall \<Rightarrow> bool" where
  "call_ok (AddToCart new_id item) \<longleftrightarrow>
     isFinite (quantity item) \<and> quantity item > 0 \<and>
     strict_eq (total_price item) (quantity item * unit_price item)"
| "call_ok (UpdateCartItem ident qty) \<longleftrightarrow> isFinite qty"
| "call_ok _ \<longleftrightarrow> True"


text \<open>Invariants used in the proofs below.\<close>

definition total_inv :: "AppState \<Rightarrow> bool" where
  "total_inv s \<longleftrightarrow> cartTotal s = sum_list (map total_price (cartItems s))"

definition cart_ok :: "AppState \<Rightarrow> bool" where
  "cart_ok s \<longleftrightarrow> (\<forall>item\<in>set (cartItems s). line_ok item)"

definition history_ok :: "string list \<Rightarrow> bool" where
  "history_ok h \<longleftrightarrow> length h \<le> 10 \<and> distinct h"

text \<open>Concrete lines used as test inputs.\<close>

definition item100 :: CartItem where
  "item100 = \<lparr> product_id = ''prod_001'', product_name = ''Headphones'', quantity = Num 1,
      unit_price = Num 100, total_price = Num 100, item_id = ''cart_1'' \<rparr>"

definition bad_item :: NewCartItem where
  "bad_item = \<lparr> product_id = ''prod_001'', product_name = ''Headphones'', quantity = Num (- 1),
      unit_price = Num 10, total_price = Num 25 \<rparr>"

definition bad_line :: CartItem where
  "bad_line = \<lparr> product_id = ''prod_001'', product_name = ''Headphones'', quantity = Num (- 1),
      unit_price = Num 10, total_price = Num 25, item_id = ''cart_1'' \<rparr>"

definition good_item :: NewCartItem where
  "good_item = \<lparr> product_id = ''prod_001'', product_name = ''Headphones'', quantity = Num 2,
      unit_price = Num 10, total_price = Num 20 \<rparr>"

definition nan_line :: CartItem where
  "nan_line = \<lparr> product_id = ''prod_001'', product_name = ''Headphones'', quantity = NaN,
      unit_price = Num 10, total_price = NaN, item_id = ''cart_1'' \<rparr>"

definition line_a :: CartItem where
  "line_a = \<lparr> product_id = ''prod_001'', product_name = ''Headphones'', quantity = Num 2,
      unit_price = Num 10, total_price = Num 20, item_id = ''cart_1'' \<rparr>"

definition line_b :: CartItem where
  "line_b = \<lparr> product_id = ''prod_001'', product_name = ''Headphones'', quantity = Num 3,
      unit_price = Num 10, total_price = Num 30, item_id = ''cart_2'' \<rparr>"

section \<open>JSON values\<close>

text \<open>
  Values of type \<open>any\<close> that arrive as parsed JSON (tool parameters and results), with
  \<open>undefined\<close> for an absent property. A number in JSON is finite. An object is its
  list of own properties; a property read takes the first entry with that name.
\<close>

datatype json =
    JUndefined
  | JNull
  | JBool bool
  | JNum real
  | JStr string
  | JArr "json list"
  | JObj "(string \<times> json) list"

text \<open>JavaScript truthiness.\<close>

fun truthy :: "json \<Rightarrow> bool" where
  "truthy JUndefined = False"
| "truthy JNull = False"
| "truthy (JBool b) = b"
| "truthy (JNum n) = (n \<noteq> 0)"
| "truthy (JStr s) = (s \<noteq> [])"
| "truthy (JArr xs) = True"
| "truthy (JObj kvs) = True"

text \<open>
  \<open>v?.k\<close> for the property names the renderer reads (none of them is defined on a
  primitive, an array or \<open>Object.prototype\<close>): \<open>undefined\<close> unless \<open>v\<close> is an object that
  has the property. \<open>v.k\<close> is only evaluated by the source where \<open>v\<close> is truthy, and is the
  same value there.
\<close>

fun get_prop :: "json \<Rightarrow> string \<Rightarrow> json" where
  "get_prop (JObj kvs) k = (case map_of kvs k of None \<Rightarrow> JUndefined | Some v \<Rightarrow> v)"
| "get_prop _ k = JUndefined"

text \<open>\<open>a || b\<close> and \<open>a ?? b\<close>.\<close>

definition js_or :: "json \<Rightarrow> json \<Rightarrow> json" where
  "js_or a b = (if truthy a then a else b)"

definition nullish :: "json \<Rightarrow> json \<Rightarrow> json" where
  "nullish a b = (if a = JUndefined \<or> a = JNull then b else a)"

text \<open>Decimal text of a natural number, as in a template string.\<close>

definition digit :: "nat \<Rightarrow> char" where
  "digit n = char_of (48 + n)"

fun decimal :: "nat \<Rightarrow> string" where
  "decimal n = (if n < 10 then [digit n] else decimal (n div 10) @ [digit (n mod 10)])"

declare decimal.simps [simp del]

record FunctionCall =
  name :: string
  parameters :: json
  result :: json

section \<open>The SSE connection hook (hooks/useSSEConnection.ts)\<close>

datatype MessageType = User | Assistant | FunctionCallMessage | ErrorMessage

text \<open>A \<open>Date\<close> is its time in milliseconds.\<close>

record Message =
  msg_id :: string
  msg_type :: MessageType
  content :: string
  timestamp :: nat
  function_call :: "FunctionCall option"

datatype ConnectionStatus = Connecting | Connected | Disconnected | ConnectionError

text \<open>
  The options of the hook; its delays and its attempt limit are finite numbers. A callback field says whether the caller supplied the callback
  (\<open>onError?.(...)\<close> calls it only then); the two numeric options are optional and have
  defaults. \<open>API_URL\<close> is the value read from the environment.
\<close>

record SSEConnectionOptions =
  opt_sessionId :: string
  onMessage :: bool
  onFunctionCall :: bool
  onError :: bool
  maxReconnectAttempts :: "real option"
  baseReconnectDelay :: "real option"
  API_URL :: string

definition maxAttempts :: "SSEConnectionOptions \<Rightarrow> real" where
  "maxAttempts opts = (case maxReconnectAttempts opts of None \<Rightarrow> 5 | Some m \<Rightarrow> m)"

definition baseDelay :: "SSEConnectionOptions \<Rightarrow> real" where
  "baseDelay opts = (case baseReconnectDelay opts of None \<Rightarrow> 1000 | Some d \<Rightarrow> d)"

record EventSource =
  url :: string
  closed :: bool

text \<open>
  The hook's React state and refs. \<open>timers\<close> lists the delays of the reconnection timers
  set with \<open>setTimeout\<close>, oldest first, and \<open>reconnectTimeoutRef\<close> holds the position of
  the latest one; \<open>onMessageCalls\<close> and \<open>onErrorCalls\<close> log the arguments of the calls of
  the two callbacks.
\<close>

record HookState =
  messages :: "Message list"
  connectionStatus :: ConnectionStatus
  hookError :: "string option"
  isTyping :: bool
  eventSourceRef :: "EventSource option"
  reconnectTimeoutRef :: "nat option"
  reconnectAttemptsRef :: nat
  timers :: "real list"
  onMessageCalls :: "Message list"
  onErrorCalls :: "string list"

definition initialHookState :: HookState where
  "initialHookState =
     \<lparr> messages = [], connectionStatus = Disconnected, hookError = None, isTyping = False,
       eventSourceRef = None, reconnectTimeoutRef = None, reconnectAttemptsRef = 0,
       timers = [], onMessageCalls = [], onErrorCalls = [] \<rparr>"

definition buildUrl :: "SSEConnectionOptions \<Rightarrow> string \<Rightarrow> string" where
  "buildUrl opts path = (if API_URL opts \<noteq> [] then API_URL opts @ path else path)"

definition call_onError :: "SSEConnectionOptions \<Rightarrow> string \<Rightarrow> HookState \<Rightarrow> HookState" where
  "call_onError opts msg st =
     (if onError opts then st\<lparr>onErrorCalls := onErrorCalls st @ [msg]\<rparr> else st)"

definition addMessage :: "SSEConnectionOptions \<Rightarrow> Message \<Rightarrow> HookState \<Rightarrow> HookState" where
  "addMessage opts message st =
     (let st1 = st\<lparr>messages := messages st @ [message]\<rparr>
      in if onMessage opts then st1\<lparr>onMessageCalls := onMessageCalls st1 @ [message]\<rparr>
         else st1)"

text \<open>
  \<open>connect\<close>; \<open>throws\<close> says whether the \<open>EventSource\<close> constructor throws. The handlers
  that \<open>connect\<close> installs on the new source are the functions \<open>onopen\<close>, \<open>onerror\<close>,
  \<open>error_listener\<close> and \<open>handleTextChunk\<close> below.
\<close>

definition connect :: "SSEConnectionOptions \<Rightarrow> bool \<Rightarrow> HookState \<Rightarrow> HookState" where
  "connect opts throws st =
     (if opt_sessionId opts = [] then st
      else
        let st1 = (case eventSourceRef st of
                     None \<Rightarrow> st
                   | Some es \<Rightarrow> st\<lparr>eventSourceRef := Some (es\<lparr>closed := True\<rparr>)\<rparr>);
            st2 = st1\<lparr>connectionStatus := Connecting, hookError := None\<rparr>
        in if throws
           then call_onError opts ''Failed to establish connection''
                  (st2\<lparr>connectionStatus := ConnectionError,
                       hookError := Some ''Failed to establish connection''\<rparr>)
           else st2\<lparr>eventSourceRef :=
                       Some \<lparr> url = buildUrl opts (''/api/stream/'' @ opt_sessionId opts),
                              closed = False \<rparr>\<rparr>)"

definition onopen :: "HookState \<Rightarrow> HookState" where
  "onopen st = st\<lparr>connectionStatus := Connected, hookError := None, reconnectAttemptsRef := 0\<rparr>"

text \<open>\<open>scheduleReconnect\<close> sets the timer; \<open>reconnect_timer\<close> is the timer's callback.\<close>

definition scheduleReconnect :: "SSEConnectionOptions \<Rightarrow> HookState \<Rightarrow> HookState" where
  "scheduleReconnect opts st =
     (let delay = baseDelay opts * 2 ^ reconnectAttemptsRef st
      in st\<lparr>timers := timers st @ [delay], reconnectTimeoutRef := Some (length (timers st))\<rparr>)"

definition reconnect_timer :: "SSEConnectionOptions \<Rightarrow> bool \<Rightarrow> HookState \<Rightarrow> HookState" where
  "reconnect_timer opts throws st =
     connect opts throws (st\<lparr>reconnectAttemptsRef := reconnectAttemptsRef st + 1\<rparr>)"

definition onerror :: "SSEConnectionOptions \<Rightarrow> HookState \<Rightarrow> HookState" where
  "onerror opts st =
     (let st1 = st\<lparr>connectionStatus := ConnectionError\<rparr>
      in if real (reconnectAttemptsRef st1) < maxAttempts opts
         then scheduleReconnect opts st1
         else call_onError opts ''Max reconnection attempts reached''
                (st1\<lparr>hookError := Some ''Max reconnection attempts reached''\<rparr>))"

text \<open>
  \<open>handleErrorEvent\<close>; the payload's \<open>error\<close> field is taken to be a string, and \<open>now\<close> is
  \<open>Date.now()\<close>.
\<close>

definition handleErrorEvent ::
    "SSEConnectionOptions \<Rightarrow> nat \<Rightarrow> string \<Rightarrow> HookState \<Rightarrow> HookState" where
  "handleErrorEvent opts now err st =
     (let errorMessage =
            \<lparr> msg_id = ''error_'' @ decimal now, msg_type = ErrorMessage,
              content = (if err \<noteq> [] then err else ''An error occurred''),
              timestamp = now, function_call = None \<rparr>;
          st1 = addMessage opts errorMessage st
      in call_onError opts err (st1\<lparr>hookError := Some err\<rparr>))"

text \<open>
  The listener for events named \<open>error\<close>: an event with data is a server error (its JSON
  may fail to parse, which the listener catches and logs), one without is a network error.
\<close>

datatype ErrorEventData = NoData | BadJson | ErrorData string

fun error_listener ::
    "SSEConnectionOptions \<Rightarrow> nat \<Rightarrow> ErrorEventData \<Rightarrow> HookState \<Rightarrow> HookState" where
  "error_listener opts now (ErrorData err) st = handleErrorEvent opts now err st"
| "error_listener opts now BadJson st = st"
| "error_listener opts now NoData st =
     (let st1 = st\<lparr>connectionStatus := ConnectionError\<rparr>
      in if real (reconnectAttemptsRef st1) < maxAttempts opts
         then scheduleReconnect opts st1
         else call_onError opts ''Max reconnection attempts reached''
                (st1\<lparr>hookError := Some ''Max reconnection attempts reached''\<rparr>))"

record TextChunkData =
  chunk_content :: string
  partial :: bool

definition new_assistant_message :: "nat \<Rightarrow> string \<Rightarrow> Message" where
  "new_assistant_message now text =
     \<lparr> msg_id = ''msg_'' @ decimal now, msg_type = Assistant, content = text,
       timestamp = now, function_call = None \<rparr>"

definition handleTextChunk ::
    "SSEConnectionOptions \<Rightarrow> nat \<Rightarrow> TextChunkData \<Rightarrow> HookState \<Rightarrow> HookState" where
  "handleTextChunk opts now data st =
     (let st1 =
        (if partial data
         then
           let prev = messages st
           in if prev \<noteq> [] \<and> msg_type (last prev) = Assistant
              then st\<lparr>messages :=
                        map_at (int (length prev) - 1)
                          (\<lambda>msg. msg\<lparr>content := content msg @ chunk_content data\<rparr>) prev\<rparr>
              else st\<lparr>messages := prev @ [new_assistant_message now (chunk_content data)]\<rparr>
         else addMessage opts (new_assistant_message now (chunk_content data)) st)
      in st1\<lparr>isTyping := True\<rparr>)"

definition reconnect :: "SSEConnectionOptions \<Rightarrow> bool \<Rightarrow> HookState \<Rightarrow> HookState" where
  "reconnect opts throws st = connect opts throws (st\<lparr>reconnectAttemptsRef := 0\<rparr>)"

text \<open>What can happen to a mounted hook, and the state after a sequence of such events.\<close>

datatype HookEvent =
    EvOpen
  | EvError
  | EvErrorListener nat ErrorEventData
  | EvTimer bool
  | EvReconnect bool
  | EvTextChunk nat TextChunkData

fun hook_step :: "SSEConnectionOptions \<Rightarrow> HookState \<Rightarrow> HookEvent \<Rightarrow> HookState" where
  "hook_step opts st EvOpen = onopen st"
| "hook_step opts st EvError = onerror opts st"
| "hook_step opts st (EvErrorListener now d) = error_listener opts now d st"
| "hook_step opts st (EvTimer throws) = reconnect_timer opts throws st"
| "hook_step opts st (EvReconnect throws) = reconnect opts throws st"
| "hook_step opts st (EvTextChunk now d) = handleTextChunk opts now d st"

definition hook_run :: "SSEConnectionOptions \<Rightarrow> HookState \<Rightarrow> HookEvent list \<Rightarrow> HookState" where
  "hook_run opts st evs = foldl (hook_step opts) st evs"

text \<open>
  The number of reconnection attempts made (timer callbacks run) since the counter was last
  reset, that is since the last successful open or manual \<open>reconnect()\<close>, or since the mount
  when there was none.
\<close>

fun is_reset :: "HookEvent \<Rightarrow> bool" where
  "is_reset EvOpen = True"
| "is_reset (EvReconnect throws) = True"
| "is_reset _ = False"

fun is_attempt :: "HookEvent \<Rightarrow> bool" where
  "is_attempt (EvTimer throws) = True"
| "is_attempt _ = False"

definition attempts_made :: "HookEvent list \<Rightarrow> nat" where
  "attempts_made evs =
     length (filter is_attempt (takeWhile (\<lambda>ev. \<not> is_reset ev) (rev evs)))"

definition default_options :: SSEConnectionOptions where
  "default_options =
     \<lparr> opt_sessionId = ''s1'', onMessage = True, onFunctionCall = False, onError = True,
       maxReconnectAttempts = None, baseReconnectDelay = None, API_URL = [] \<rparr>"

text \<open>Concrete options, event sequences and states used as test inputs.\<close>

definition two_attempt_options :: SSEConnectionOptions where
  "two_attempt_options =
     \<lparr> opt_sessionId = ''s1'', onMessage = False, onFunctionCall = False, onError = True,
       maxReconnectAttempts = Some 2, baseReconnectDelay = Some 500, API_URL = [] \<rparr>"

definition two_failures :: "HookEvent list" where
  "two_failures =
     [EvError, EvTimer False, EvOpen, EvError, EvTimer False, EvError, EvTimer False]"

text \<open>
  \<open>connect\<close> registers the \<open>error\<close> listener and then \<open>onerror\<close> on the same
  \<open>EventSource\<close>, so an error event without data (a network error) runs both, in that
  order. \<open>failed_attempt\<close> is such an error followed by the run of the timers that were set;
  neither \<open>connect\<close> nor a timer's callback clears a timer.
\<close>

definition network_error :: "HookEvent list" where
  "network_error = [EvErrorListener 0 NoData, EvError]"

definition failed_attempt :: "HookEvent list" where
  "failed_attempt = network_error @ [EvTimer False, EvTimer False]"

definition three_failures :: "HookEvent list" where
  "three_failures = failed_attempt @ failed_attempt @ failed_attempt"

definition user_hi :: Message where
  "user_hi = \<lparr> msg_id = ''user_1'', msg_type = User, content = ''hi'', timestamp = 1,
      function_call = None \<rparr>"

definition assistant_hel :: Message where
  "assistant_hel = \<lparr> msg_id = ''msg_2'', msg_type = Assistant, content = ''Hel'',
      timestamp = 2, function_call = None \<rparr>"

definition chunk_lo :: "bool \<Rightarrow> TextChunkData" where
  "chunk_lo p = \<lparr> chunk_content = ''lo'', partial = p \<rparr>"

section \<open>Session start-up (the mount effect of AppStateProvider)\<close>

text \<open>
  The outcome of a \<open>fetch\<close>: the promise rejects (network failure) or resolves with a
  response, whose body either parses to an object with a \<open>session_id\<close> or fails to parse.
  A body that parses to JSON without a string \<open>session_id\<close> is not modelled.
\<close>

datatype ResponseBody = InvalidJson | SessionJson string

record Response =
  status :: nat
  body :: ResponseBody

definition ok :: "Response \<Rightarrow> bool" where
  "ok res \<longleftrightarrow> 200 \<le> status res \<and> status res \<le> 299"

datatype FetchResult = NetworkFailure | Responded Response

datatype Request = GET string | POST string

text \<open>
  The provider's world: the reducer state, the entry \<open>ai_assistant_session_id\<close> of
  \<open>localStorage\<close>, and the requests sent so far.
\<close>

record ClientState =
  app :: AppState
  localStorage :: "string option"
  requests :: "Request list"

definition dispatch :: "AppAction \<Rightarrow> ClientState \<Rightarrow> ClientState" where
  "dispatch action cs = cs\<lparr>app := appReducer (app cs) action\<rparr>"

text \<open>\<open>createSession\<close>; \<open>api\<close> is \<open>API_URL\<close> and \<open>fr\<close> the outcome of its POST.\<close>

definition createSession :: "string \<Rightarrow> FetchResult \<Rightarrow> ClientState \<Rightarrow> ClientState" where
  "createSession api fr cs =
     (let cs1 = dispatch (SET_ERROR None) (dispatch (SET_LOADING True) cs);
          cs2 = cs1\<lparr>requests := requests cs1 @ [POST (api @ ''/api/sessions'')]\<rparr>;
          failed = dispatch (SET_LOADING False)
                     (dispatch (SET_ERROR (Some ''Failed to create session'')) cs2)
      in case fr of
           NetworkFailure \<Rightarrow> failed
         | Responded response \<Rightarrow>
             if \<not> ok response then dispatch (SET_LOADING False) cs2
             else (case body response of
                     InvalidJson \<Rightarrow> failed
                   | SessionJson session_id \<Rightarrow>
                       dispatch (SET_LOADING False)
                         ((dispatch (SET_SESSION_ID session_id) cs2)
                            \<lparr>localStorage := Some session_id\<rparr>)))"

text \<open>
  \<open>validateOrCreate\<close>, run once on mount; \<open>ctx\<close> is the outcome of the fetch-context
  request and \<open>fr\<close> the outcome of the POST of \<open>createSession\<close>, when it is called.
\<close>

definition validateOrCreate ::
    "string \<Rightarrow> FetchResult \<Rightarrow> FetchResult \<Rightarrow> ClientState \<Rightarrow> ClientState" where
  "validateOrCreate api ctx fr cs =
     (case localStorage cs of
        None \<Rightarrow> createSession api fr cs
      | Some savedSessionId \<Rightarrow>
          if savedSessionId = [] then createSession api fr cs
          else
            let cs1 = cs\<lparr>requests := requests cs @
                          [GET (api @ ''/api/sessions/'' @ savedSessionId @ ''/context'')]\<rparr>
            in case ctx of
                 NetworkFailure \<Rightarrow> createSession api fr (cs1\<lparr>localStorage := None\<rparr>)
               | Responded res \<Rightarrow>
                   if status res = 404 \<or> status res = 410
                   then createSession api fr (cs1\<lparr>localStorage := None\<rparr>)
                   else if \<not> ok res
                   then createSession api fr (cs1\<lparr>localStorage := None\<rparr>)
                   else dispatch (SET_SESSION_ID savedSessionId) cs1)"

text \<open>The session id that a \<open>createSession\<close> POST with outcome \<open>fr\<close> yields, if any.\<close>

definition created_id :: "FetchResult \<Rightarrow> string option" where
  "created_id fr =
     (case fr of
        NetworkFailure \<Rightarrow> None
      | Responded response \<Rightarrow>
          if ok response
          then (case body response of InvalidJson \<Rightarrow> None | SessionJson session_id \<Rightarrow> Some session_id)
          else None)"

definition context_url :: "string \<Rightarrow> string \<Rightarrow> string" where
  "context_url api session_id = api @ ''/api/sessions/'' @ session_id @ ''/context''"

definition gone :: FetchResult where
  "gone = Responded \<lparr> status = 410, body = InvalidJson \<rparr>"

definition fresh_session :: FetchResult where
  "fresh_session = Responded \<lparr> status = 200, body = SessionJson ''sess_new'' \<rparr>"

definition saved_client :: ClientState where
  "saved_client = \<lparr> app = initialState, localStorage = Some ''sess_old'', requests = [] \<rparr>"

section \<open>The function-call renderer (components/FunctionCallRenderer.tsx)\<close>

text \<open>
  \<open>Inherited k\<close> is the value that a property read finds on \<open>Object.prototype\<close> under the
  name \<open>k\<close>: it is truthy and is none of the five components.
\<close>

datatype Component =
    SearchResults
  | ProductCard
  | CartNotification
  | RecommendationGrid
  | CartView
  | Inherited string

definition FunctionComponents :: "(string \<times> Component) list" where
  "FunctionComponents =
     [(''search_products'', SearchResults),
      (''show_product_details'', ProductCard),
      (''add_to_cart'', CartNotification),
      (''get_recommendations'', RecommendationGrid),
      (''get_cart'', CartView),
      (''remove_from_cart'', CartView)]"

text \<open>
  \<open>FunctionComponents\<close> is an object literal, so its prototype is \<open>Object.prototype\<close>, and
  \<open>FunctionComponents[k]\<close> reads an own property first and an inherited one otherwise.
\<close>

definition Object_prototype_properties :: "string list" where
  "Object_prototype_properties =
     [''constructor'', ''hasOwnProperty'', ''isPrototypeOf'', ''propertyIsEnumerable'',
      ''toLocaleString'', ''toString'', ''valueOf'', ''__proto__'',
      ''__defineGetter__'', ''__defineSetter__'', ''__lookupGetter__'', ''__lookupSetter__'']"

definition lookup_component :: "string \<Rightarrow> Component option" where
  "lookup_component k =
     (case map_of FunctionComponents k of
        Some c \<Rightarrow> Some c
      | None \<Rightarrow> if k \<in> set Object_prototype_properties then Some (Inherited k) else None)"

text \<open>
  \<open>String.prototype.trim\<close> on the white space of ASCII (a \<open>string\<close> is a list of bytes), and
  \<open>String.prototype.includes\<close>.
\<close>

definition is_space :: "char \<Rightarrow> bool" where
  "is_space c \<longleftrightarrow> c \<in> set [CHR '' '', CHR 0x09, CHR 0x0A, CHR 0x0B, CHR 0x0C, CHR 0x0D]"

definition trim :: "string \<Rightarrow> string" where
  "trim s = rev (dropWhile is_space (rev (dropWhile is_space s)))"

fun str_includes :: "string \<Rightarrow> string \<Rightarrow> bool" where
  "str_includes [] t = (t = [])"
| "str_includes (c # cs) t = (take (length t) (c # cs) = t \<or> str_includes cs t)"

text \<open>
  The own enumerable properties that an object spread copies. \<open>{...parameters, ...raw}\<close> is
  \<open>entries raw @ entries parameters\<close>, read with the first entry of a name winning.
\<close>

fun entries :: "json \<Rightarrow> (string \<times> json) list" where
  "entries (JObj kvs) = kvs"
| "entries (JArr xs) = zip (map decimal [0..<length xs]) xs"
| "entries (JStr s) = zip (map decimal [0..<length s]) (map (\<lambda>c. JStr [c]) s)"
| "entries _ = []"

text \<open>
  What the renderer returns. A child of an element is a value rendered as it is or the
  text \<open>JSON.stringify\<close> makes of it. The event handlers passed to a component are left out.
\<close>

datatype Child = Text json | Stringified json

datatype Rendered =
    UnknownFunctionCall string Child
  | ErrorBannerElement string json "Child list"
  | ComponentElement Component "(string \<times> json) list"

definition suggestion_item :: "json \<Rightarrow> Child" where
  "suggestion_item s =
     (case s of
        JStr t \<Rightarrow> Text s
      | _ \<Rightarrow> (let p = get_prop s ''product_id'' in if truthy p then Text p else Stringified s))"

definition ErrorBanner :: "string \<Rightarrow> json \<Rightarrow> json \<Rightarrow> Rendered" where
  "ErrorBanner title message suggestions =
     ErrorBannerElement title message
       (case suggestions of
          JArr xs \<Rightarrow> if length xs > 0 then map suggestion_item (take 5 xs) else []
        | _ \<Rightarrow> [])"

text \<open>\<open>raw = result?.data || result || {}\<close>, and the elements of a value that is an array.\<close>

definition raw_result :: "json \<Rightarrow> json" where
  "raw_result res = js_or (js_or (get_prop res ''data'') res) (JObj [])"

fun array_items :: "json \<Rightarrow> json list" where
  "array_items (JArr xs) = xs"
| "array_items _ = []"

definition FunctionCallRenderer :: "FunctionCall \<Rightarrow> Rendered" where
  "FunctionCallRenderer functionCall =
     (let normalizedName = trim (name functionCall);
          component =
            (case lookup_component normalizedName of
               Some c \<Rightarrow> Some c
             | None \<Rightarrow> if str_includes normalizedName ''cart'' then Some CartView else None)
      in case component of
           None \<Rightarrow>
             UnknownFunctionCall (name functionCall) (Stringified (parameters functionCall))
         | Some c \<Rightarrow>
             let raw = raw_result (result functionCall);
                 spreadProps = entries raw @ entries (parameters functionCall);
                 mappedProps =
                   (if normalizedName = ''add_to_cart''
                    then [(''cart_summary'',
                             nullish (get_prop raw ''cart_summary'') (get_prop raw ''cartSummary'')),
                          (''cartItem'',
                             nullish (get_prop raw ''cartItem'') (get_prop raw ''cart_item''))]
                         @ spreadProps
                    else spreadProps);
                 validation = get_prop raw ''validation'';
                 hasValidationError =
                   (normalizedName = ''show_product_details'' \<and>
                    (\<not> truthy (get_prop raw ''product'') \<or>
                     (truthy validation \<and> get_prop validation ''valid'' = JBool False)));
                 genericError =
                   (case get_prop raw ''error'' of JStr e \<Rightarrow> JStr e | _ \<Rightarrow> JNull)
             in if truthy genericError
                then ErrorBanner ''Validation Error'' genericError JUndefined
                else if hasValidationError
                then
                  let message = js_or (get_prop validation ''error'')
                                  (JStr ''Product not found or not in recent searches.'');
                      suggestions = get_prop validation ''suggestions''
                  in ErrorBanner ''Invalid Product ID'' message suggestions
                else ComponentElement c mappedProps)"

text \<open>Function calls used as test inputs.\<close>

definition details_call :: "json \<Rightarrow> FunctionCall" where
  "details_call res =
     \<lparr> name = ''show_product_details'',
       parameters = JObj [(''product_id'', JStr ''prod_999'')], result = res \<rparr>"

definition failed_validation :: json where
  "failed_validation =
     JObj [(''valid'', JBool False),
           (''error'', JStr ''Product prod_999 is not in your recent searches''),
           (''suggestions'',
              JArr [JStr ''prod_001'', JObj [(''product_id'', JStr ''prod_002'')],
                    JStr ''prod_003'', JStr ''prod_004'', JStr ''prod_005'',
                    JStr ''prod_006''])]"

definition failed_result :: json where
  "failed_result = JObj [(''validation'', failed_validation)]"

definition constructor_call :: FunctionCall where
  "constructor_call = \<lparr> name = ''constructor'', parameters = JObj [], result = JObj [] \<rparr>"

definition unknown_call :: FunctionCall where
  "unknown_call = \<lparr> name = '' unknown_function'', parameters = JObj [], result = JObj [] \<rparr>"

section \<open>Properties of the cart and the search history\<close>

subsection \<open>Helper lemmas\<close>

lemma foldl_add_sum:
  "foldl (\<lambda>sum item. sum + f item) a xs = (a::number) + sum_list (map f xs)"
  by (induction xs arbitrary: a) (simp_all add: add.assoc)

lemma reduce_total_sum: "reduce_total items = sum_list (map total_price items)"
  by (simp add: reduce_total_def foldl_add_sum)

lemma appReducer_total_inv: "total_inv s \<Longrightarrow> total_inv (appReducer s a)"
  by (cases a) (simp_all add: total_inv_def Let_def reduce_total_sum)

lemma dispatch_all_total_inv: "total_inv s \<Longrightarrow> total_inv (dispatch_all s acts)"
  unfolding dispatch_all_def
  by (induction acts arbitrary: s) (simp_all add: appReducer_total_inv)

lemma initial_total_inv: "total_inv initialState"
  by (simp add: total_inv_def initialState_def)

lemma dispatch_all_snoc:
  "dispatch_all s (acts @ [a]) = appReducer (dispatch_all s acts) a"
  by (simp add: dispatch_all_def)

lemma findIndex_none: "(\<forall>x\<in>set xs. \<not> P x) \<Longrightarrow> findIndex P xs = -1"
  by (induction xs) (simp_all add: Let_def)

lemma findIndex_snoc:
  "(\<forall>x\<in>set xs. \<not> P x) \<Longrightarrow> P y \<Longrightarrow> findIndex P (xs @ [y]) = int (length xs)"
  by (induction xs) (simp_all add: Let_def)

lemma map_at_conv:
  "map_at k f xs = (if 0 \<le> k \<and> k < int (length xs) then xs[nat k := f (xs ! nat k)] else xs)"
  by (auto simp: map_at_def nth_enumerate_eq intro!: nth_equalityI)

lemma set_map_at: "set (map_at k f xs) \<subseteq> set xs \<union> f ` set xs"
  by (auto simp: map_at_def in_set_enumerate_eq)

subsection \<open>The cart total\<close>

text \<open>
  C1, as the code has it. After any sequence of actions dispatched from the initial state,
  and so at every intermediate state (the state after the first \<open>n\<close> actions), \<open>cartTotal\<close>
  is the sum of the \<open>total_price\<close> of the lines now in the cart (the same value, NaN when
  the sum is NaN). The reducer's state has no further total: no tax is added anywhere in
  it.
\<close>

theorem cartTotal_is_sum_of_lines:
  "cartTotal (dispatch_all initialState (take n acts)) =
     (\<Sum>item\<leftarrow>cartItems (dispatch_all initialState (take n acts)). total_price item)"
  using dispatch_all_total_inv [OF initial_total_inv, of "take n acts"]
  by (simp add: total_inv_def)

text \<open>
  C1 as stated fails: the total the state holds is not the subtotal plus a tax on it. With
  one line of total price 100 in the cart and the documented tax rate of 10 percent, the
  state's total is 100, not 110.
\<close>

theorem cartTotal_untaxed_counterexample:
  "cartTotal (dispatch_all initialState [ADD_TO_CART item100]) = Num 100 \<and>
   cartTotal (dispatch_all initialState [ADD_TO_CART item100]) \<noteq>
     (\<Sum>item\<leftarrow>cartItems (dispatch_all initialState [ADD_TO_CART item100]). total_price item)
     + Num (1 / 10) *
       (\<Sum>item\<leftarrow>cartItems (dispatch_all initialState [ADD_TO_CART item100]). total_price item)"
  by (simp add: dispatch_all_def initialState_def item100_def Let_def reduce_total_def
      zero_number_def)

subsection \<open>Adding the same product twice\<close>

text \<open>
  C3. From a cart with no line for product \<open>P\<close>, adding \<open>P\<close> with quantity 2 and unit price
  \<open>U\<close> and then \<open>P\<close> with quantity 3 leaves the earlier lines as they were and one line for
  \<open>P\<close>, whose quantity is 5 and whose total price is \<open>5 * U\<close>.
\<close>

theorem add_twice_single_line:
  assumes fresh: "\<forall>item\<in>set (cartItems s). product_id item \<noteq> P"
    and a: "product_id a = P" "quantity a = Num 2" "unit_price a = U"
    and b: "product_id b = P" "quantity b = Num 3" "unit_price b = U"
  shows "cartItems (appReducer (appReducer s (ADD_TO_CART a)) (ADD_TO_CART b)) =
           cartItems s @ [a\<lparr>quantity := Num 5, total_price := Num 5 * U\<rparr>]
         \<and> filter (\<lambda>item. product_id item = P)
              (cartItems (appReducer (appReducer s (ADD_TO_CART a)) (ADD_TO_CART b))) =
           [a\<lparr>quantity := Num 5, total_price := Num 5 * U\<rparr>]"
proof -
  let ?match = "\<lambda>item::CartItem. product_id item = P"
  have none: "\<forall>item\<in>set (cartItems s). \<not> ?match item"
    using fresh by simp
  have first: "cartItems (appReducer s (ADD_TO_CART a)) = cartItems s @ [a]"
    using findIndex_none [OF none] a by (simp add: Let_def)
  have idx: "findIndex ?match (cartItems s @ [a]) = int (length (cartItems s))"
    using findIndex_snoc [OF none] a by simp
  have second: "cartItems (appReducer (appReducer s (ADD_TO_CART a)) (ADD_TO_CART b)) =
      cartItems s @ [a\<lparr>quantity := Num 5, total_price := Num 5 * U\<rparr>]"
    using first idx a b by (simp add: Let_def map_at_conv)
  have "filter ?match (cartItems s) = []"
    using none by (simp add: filter_empty_conv)
  with second a show ?thesis by simp
qed

theorem add_twice_single_line_witness:
  "cartItems initialState = [] \<and>
   product_id line_a = ''prod_001'' \<and> quantity line_a = Num 2 \<and>
   unit_price line_a = Num 10 \<and>
   product_id line_b = ''prod_001'' \<and> quantity line_b = Num 3 \<and>
   unit_price line_b = Num 10 \<and>
   cartItems (appReducer (appReducer initialState (ADD_TO_CART line_a)) (ADD_TO_CART line_b)) =
     [line_a\<lparr>quantity := Num 5, total_price := Num 50\<rparr>]"
  using add_twice_single_line [of initialState "''prod_001''" line_a "Num 10" line_b]
  by (simp add: initialState_def line_a_def line_b_def)

subsection \<open>Well-formed cart lines\<close>

lemma positive_times_NaN: "0 < q \<Longrightarrow> (Num q * u = NaN) = (u = NaN)"
  by (cases u) (simp_all add: signed_infinity_def)

lemma line_okD:
  assumes "line_ok item"
  obtains q where "quantity item = Num q" "0 < q" "unit_price item \<noteq> NaN"
    "total_price item = Num q * unit_price item"
proof -
  from assms obtain q where q: "quantity item = Num q" "0 < q"
    by (cases "quantity item") (simp_all add: line_ok_def zero_number_def)
  from assms q have total: "total_price item = Num q * unit_price item"
      "Num q * unit_price item \<noteq> NaN"
    by (auto simp: line_ok_def strict_eq_def)
  with q positive_times_NaN [of q "unit_price item"] have "unit_price item \<noteq> NaN"
    by simp
  with q total that show thesis by blast
qed

lemma line_okI:
  assumes "quantity item = Num q" "0 < q" "unit_price item \<noteq> NaN"
    "total_price item = Num q * unit_price item"
  shows "line_ok item"
  using assms positive_times_NaN [of q "unit_price item"]
  by (simp add: line_ok_def strict_eq_def zero_number_def)

lemma add_existing_ok:
  assumes "line_ok item" "line_ok (p::CartItem)"
  shows "line_ok (item\<lparr>quantity := quantity item + quantity p,
                        total_price := (quantity item + quantity p) * unit_price item\<rparr>)"
proof -
  from assms(1) obtain q where q: "quantity item = Num q" "0 < q" "unit_price item \<noteq> NaN"
    by (rule line_okD)
  from assms(2) obtain r where r: "quantity p = Num r" "0 < r"
    by (rule line_okD)
  show ?thesis
    by (rule line_okI [of _ "q + r"]) (use q r in simp_all)
qed

lemma ADD_TO_CART_ok:
  assumes "cart_ok s" "line_ok p"
  shows "cart_ok (appReducer s (ADD_TO_CART p))"
proof -
  let ?f = "\<lambda>item::CartItem. item\<lparr>quantity := quantity item + quantity p,
                        total_price := (quantity item + quantity p) * unit_price item\<rparr>"
  have "\<forall>x\<in>set (map_at k ?f (cartItems s)). line_ok x" for k
  proof
    fix x assume "x \<in> set (map_at k ?f (cartItems s))"
    then have "x \<in> set (cartItems s) \<or> x \<in> ?f ` set (cartItems s)"
      using set_map_at [of k ?f "cartItems s"] by blast
    then show "line_ok x"
      using assms add_existing_ok [of _ p] by (auto simp: cart_ok_def)
  qed
  then show ?thesis
    using assms by (simp add: cart_ok_def Let_def)
qed

lemma update_line_ok:
  assumes "line_ok item" "0 < r"
  shows "line_ok (item\<lparr>quantity := Num r, total_price := Num r * unit_price item\<rparr>)"
proof -
  from assms(1) obtain q where "unit_price item \<noteq> NaN"
    by (rule line_okD)
  then show ?thesis
    by (intro line_okI [of _ r]) (use assms(2) in simp_all)
qed

lemma UPDATE_CART_ITEM_ok:
  assumes "cart_ok s" "0 < r"
  shows "cart_ok (appReducer s (UPDATE_CART_ITEM ident (Num r)))"
  using assms update_line_ok by (auto simp: cart_ok_def Let_def)

lemma REMOVE_FROM_CART_ok: "cart_ok s \<Longrightarrow> cart_ok (appReducer s (REMOVE_FROM_CART ident))"
  by (simp add: cart_ok_def Let_def)

lemma updateCartItem_ok:
  assumes "cart_ok s" "isFinite qty"
  shows "cart_ok (updateCartItem ident qty s)"
proof -
  from assms(2) obtain r where qty: "qty = Num r"
    by (cases qty) simp_all
  show ?thesis
  proof (cases "r \<le> 0")
    case True
    with qty assms(1) show ?thesis
      by (simp add: updateCartItem_def removeFromCart_def REMOVE_FROM_CART_ok zero_number_def
          del: appReducer.simps)
  next
    case False
    with qty assms(1) show ?thesis
      by (simp add: updateCartItem_def UPDATE_CART_ITEM_ok zero_number_def
          del: appReducer.simps)
  qed
qed

lemma run_call_ok:
  assumes "cart_ok s" "call_ok c"
  shows "cart_ok (run_call s c)"
proof (cases c)
  case (AddToCart new_id item)
  with assms show ?thesis
    by (simp add: addToCart_def Let_def ADD_TO_CART_ok line_ok_def del: appReducer.simps)
next
  case (UpdateCartItem ident qty)
  with assms show ?thesis
    by (simp add: updateCartItem_ok)
next
  case (RemoveFromCart ident)
  with assms show ?thesis
    by (simp add: removeFromCart_def REMOVE_FROM_CART_ok del: appReducer.simps)
next
  case ClearCart
  then show ?thesis by (simp add: clearCart_def cart_ok_def)
qed

lemma run_calls_ok:
  "cart_ok s \<Longrightarrow> \<forall>c\<in>set calls. call_ok c \<Longrightarrow> cart_ok (run_calls s calls)"
  unfolding run_calls_def
  by (induction calls arbitrary: s) (simp_all add: run_call_ok)

text \<open>
  C4 as stated fails: \<open>addToCart\<close> stores the line it is given, so a call with quantity -1,
  unit price 10 and total price 25 on the empty cart leaves exactly that line.
\<close>

theorem addToCart_unchecked_counterexample:
  "cartItems (run_calls initialState [AddToCart ''cart_1'' bad_item]) = [bad_line] \<and>
   quantity bad_line \<le> 0 \<and>
   total_price bad_line \<noteq> quantity bad_line * unit_price bad_line"
  by (simp add: run_calls_def addToCart_def initialState_def bad_item_def bad_line_def Let_def
      zero_number_def)

text \<open>
  C4, amended. When every \<open>addToCart\<close> call is given a line with a finite positive quantity
  and \<open>total_price === quantity * unit_price\<close>, and every \<open>updateCartItem\<close> call is given a
  finite quantity (of any sign; \<open>removeFromCart\<close> and \<open>clearCart\<close> take any argument), every
  line of the cart reached from the initial state has a positive quantity and
  \<open>total_price === quantity * unit_price\<close>.
\<close>

theorem reachable_lines_ok:
  assumes "\<forall>c\<in>set calls. call_ok c"
  shows "\<forall>item\<in>set (cartItems (run_calls initialState calls)).
           quantity item > 0 \<and> strict_eq (total_price item) (quantity item * unit_price item)"
proof -
  have "cart_ok initialState" by (simp add: cart_ok_def initialState_def)
  from run_calls_ok [OF this assms] show ?thesis
    by (simp add: cart_ok_def line_ok_def)
qed

lemma good_calls_ok:
  "\<forall>c\<in>set [AddToCart ''cart_1'' good_item, AddToCart ''cart_2'' good_item,
     UpdateCartItem ''cart_9'' (Num 0), UpdateCartItem ''cart_1'' (Num 3)]. call_ok c"
  by (simp add: good_item_def strict_eq_def zero_number_def)

theorem reachable_lines_ok_witness:
  "list_all call_ok [AddToCart ''cart_1'' good_item, AddToCart ''cart_2'' good_item,
     UpdateCartItem ''cart_9'' (Num 0), UpdateCartItem ''cart_1'' (Num 3)] \<and>
   map (\<lambda>item. (quantity item, unit_price item, total_price item))
     (cartItems (run_calls initialState [AddToCart ''cart_1'' good_item,
        AddToCart ''cart_2'' good_item, UpdateCartItem ''cart_9'' (Num 0),
        UpdateCartItem ''cart_1'' (Num 3)])) = [(Num 3, Num 10, Num 30)]"
  using reachable_lines_ok [OF good_calls_ok]
  by (simp add: run_calls_def addToCart_def updateCartItem_def removeFromCart_def
        initialState_def good_item_def Let_def map_at_def reduce_total_def strict_eq_def
        zero_number_def)

text \<open>
  What the amended statement leaves out: a quantity of NaN passes the guard of
  \<open>updateCartItem\<close>, since \<open>NaN <= 0\<close> is false, and the line then holds NaN as its quantity
  and as its total price.
\<close>

lemma updateCartItem_NaN_stored:
  "cartItems (run_calls initialState
      [AddToCart ''cart_1'' good_item, UpdateCartItem ''cart_1'' NaN]) = [nan_line]"
  by (simp add: run_calls_def addToCart_def updateCartItem_def initialState_def good_item_def
      nan_line_def Let_def zero_number_def)

subsection \<open>The search history\<close>

lemma ADD_SEARCH_QUERY_history:
  "searchHistory (appReducer s (ADD_SEARCH_QUERY q)) =
     take 10 (q # filter (\<lambda>x. x \<noteq> q) (searchHistory s))"
  by (simp add: Let_def)

lemma ADD_SEARCH_QUERY_ok:
  assumes "history_ok (searchHistory s)"
  shows "history_ok (searchHistory (appReducer s (ADD_SEARCH_QUERY q)))"
proof -
  have "distinct (q # filter (\<lambda>x. x \<noteq> q) (searchHistory s))"
    using assms by (simp add: history_ok_def)
  then have "distinct (take 10 (q # filter (\<lambda>x. x \<noteq> q) (searchHistory s)))"
    by (rule distinct_take)
  then show ?thesis
    unfolding ADD_SEARCH_QUERY_history history_ok_def by simp
qed

lemma ADD_SEARCH_QUERY_hd:
  "searchHistory (appReducer s (ADD_SEARCH_QUERY q)) \<noteq> [] \<and>
   hd (searchHistory (appReducer s (ADD_SEARCH_QUERY q))) = q"
  unfolding ADD_SEARCH_QUERY_history by simp

lemma queries_history_ok:
  "history_ok (searchHistory (dispatch_all initialState (map ADD_SEARCH_QUERY qs)))"
proof (induction qs rule: rev_induct)
  case Nil
  then show ?case by (simp add: dispatch_all_def initialState_def history_ok_def)
next
  case (snoc q qs)
  then show ?case
    by (simp add: dispatch_all_snoc ADD_SEARCH_QUERY_ok del: appReducer.simps)
qed

text \<open>
  C10. After the queries \<open>qs\<close> have been added in turn from the initial state, the search
  history has at most 10 entries and no duplicates, and, when a query was added at all, it
  is not empty and its first entry is the query added last.
\<close>

theorem search_history_bounded_distinct_recent:
  "length (searchHistory (dispatch_all initialState (map ADD_SEARCH_QUERY qs))) \<le> 10 \<and>
   distinct (searchHistory (dispatch_all initialState (map ADD_SEARCH_QUERY qs))) \<and>
   (qs \<noteq> [] \<longrightarrow>
      searchHistory (dispatch_all initialState (map ADD_SEARCH_QUERY qs)) \<noteq> [] \<and>
      hd (searchHistory (dispatch_all initialState (map ADD_SEARCH_QUERY qs))) = last qs)"
proof -
  have recent: "qs \<noteq> [] \<longrightarrow>
      searchHistory (dispatch_all initialState (map ADD_SEARCH_QUERY qs)) \<noteq> [] \<and>
      hd (searchHistory (dispatch_all initialState (map ADD_SEARCH_QUERY qs))) = last qs"
  proof (cases qs rule: rev_cases)
    case Nil
    then show ?thesis by simp
  next
    case (snoc ys y)
    then show ?thesis
      using ADD_SEARCH_QUERY_hd [of "dispatch_all initialState (map ADD_SEARCH_QUERY ys)" y]
      by (simp add: dispatch_all_snoc del: appReducer.simps)
  qed
  from queries_history_ok [of qs] recent show ?thesis
    by (simp add: history_ok_def)
qed

theorem search_history_witness:
  "[''mouse'', ''desk'', ''mouse''] \<noteq> [] \<and>
   searchHistory (dispatch_all initialState
      (map ADD_SEARCH_QUERY [''mouse'', ''desk'', ''mouse''])) = [''mouse'', ''desk''] \<and>
   hd (searchHistory (dispatch_all initialState
      (map ADD_SEARCH_QUERY [''mouse'', ''desk'', ''mouse'']))) = last [''mouse'', ''desk'', ''mouse'']"
  using search_history_bounded_distinct_recent [of "[''mouse'', ''desk'', ''mouse'']"]
  by (simp add: dispatch_all_def initialState_def Let_def)

section \<open>Properties of the SSE connection hook\<close>

subsection \<open>The attempt counter\<close>

lemma attempts_call_onError [simp]:
  "reconnectAttemptsRef (call_onError opts msg st) = reconnectAttemptsRef st"
  by (simp add: call_onError_def)

lemma attempts_addMessage [simp]:
  "reconnectAttemptsRef (addMessage opts m st) = reconnectAttemptsRef st"
  by (simp add: addMessage_def Let_def)

lemma attempts_connect [simp]:
  "reconnectAttemptsRef (connect opts throws st) = reconnectAttemptsRef st"
  by (simp add: connect_def Let_def split: option.splits)

lemma attempts_scheduleReconnect [simp]:
  "reconnectAttemptsRef (scheduleReconnect opts st) = reconnectAttemptsRef st"
  by (simp add: scheduleReconnect_def Let_def)

lemma attempts_onerror [simp]:
  "reconnectAttemptsRef (onerror opts st) = reconnectAttemptsRef st"
  by (simp add: onerror_def Let_def)

lemma error_listener_NoData: "error_listener opts now NoData st = onerror opts st"
  by (simp add: onerror_def)

lemma attempts_error_listener [simp]:
  "reconnectAttemptsRef (error_listener opts now d st) = reconnectAttemptsRef st"
  by (cases d) (simp_all add: error_listener_NoData handleErrorEvent_def Let_def
      del: error_listener.simps(3))

lemma attempts_handleTextChunk [simp]:
  "reconnectAttemptsRef (handleTextChunk opts now d st) = reconnectAttemptsRef st"
  by (simp add: handleTextChunk_def Let_def)

lemma attempts_hook_step:
  "reconnectAttemptsRef (hook_step opts st ev) =
     (if is_reset ev then 0
      else if is_attempt ev then reconnectAttemptsRef st + 1
      else reconnectAttemptsRef st)"
  by (cases ev) (simp_all add: onopen_def reconnect_def reconnect_timer_def)

lemma attempts_made_snoc:
  "attempts_made (evs @ [ev]) =
     (if is_reset ev then 0
      else if is_attempt ev then attempts_made evs + 1
      else attempts_made evs)"
  by (simp add: attempts_made_def)

lemma hook_run_snoc: "hook_run opts st (evs @ [ev]) = hook_step opts (hook_run opts st evs) ev"
  by (simp add: hook_run_def)

lemma attempts_hook_run:
  "reconnectAttemptsRef (hook_run opts initialHookState evs) = attempts_made evs"
proof (induction evs rule: rev_induct)
  case Nil
  show ?case by (simp add: hook_run_def initialHookState_def attempts_made_def)
next
  case (snoc ev evs)
  then show ?case
    by (simp only: hook_run_snoc attempts_hook_step attempts_made_snoc)
qed

lemma timers_scheduleReconnect:
  "timers (scheduleReconnect opts st) =
     timers st @ [baseDelay opts * 2 ^ reconnectAttemptsRef st]"
  by (simp add: scheduleReconnect_def Let_def)

lemma onerror_below_max:
  assumes "real (reconnectAttemptsRef st) < maxAttempts opts"
  shows "timers (onerror opts st) = timers st @ [baseDelay opts * 2 ^ reconnectAttemptsRef st]"
    and "hookError (onerror opts st) = hookError st"
    and "onErrorCalls (onerror opts st) = onErrorCalls st"
  using assms by (simp_all add: onerror_def scheduleReconnect_def Let_def)

lemma onerror_at_max:
  assumes "maxAttempts opts \<le> real (reconnectAttemptsRef st)"
  shows "timers (onerror opts st) = timers st"
    and "hookError (onerror opts st) = Some ''Max reconnection attempts reached''"
    and "onErrorCalls (onerror opts st) =
           (if onError opts then onErrorCalls st @ [''Max reconnection attempts reached'']
            else onErrorCalls st)"
  using assms by (simp_all add: onerror_def call_onError_def Let_def)

text \<open>
  The delay of a timer follows the counter when the timer is set. Let \<open>n\<close> be the number
  of reconnection attempts made since the counter was last
  reset (by a successful open or a manual reconnect), after any sequence of events of a
  mounted hook. The counter holds \<open>n\<close>; \<open>scheduleReconnect\<close> sets a timer of
  \<open>baseReconnectDelay * 2 ^ n\<close>; the error handler (and the \<open>error\<close> listener on an event
  without data, which does the same) sets that timer while \<open>n < maxReconnectAttempts\<close>, and
  from then on sets no timer, sets the error to \<open>Max reconnection attempts reached\<close> and
  passes it to \<open>onError\<close> when the caller gave one.
\<close>

theorem reconnect_backoff:
  "let st = hook_run opts initialHookState evs; n = attempts_made evs in
     reconnectAttemptsRef st = n \<and>
     timers (scheduleReconnect opts st) = timers st @ [baseDelay opts * 2 ^ n] \<and>
     error_listener opts now NoData st = onerror opts st \<and>
     (real n < maxAttempts opts \<longrightarrow>
        timers (onerror opts st) = timers st @ [baseDelay opts * 2 ^ n] \<and>
        hookError (onerror opts st) = hookError st \<and>
        onErrorCalls (onerror opts st) = onErrorCalls st) \<and>
     (maxAttempts opts \<le> real n \<longrightarrow>
        timers (onerror opts st) = timers st \<and>
        hookError (onerror opts st) = Some ''Max reconnection attempts reached'' \<and>
        onErrorCalls (onerror opts st) =
          (if onError opts then onErrorCalls st @ [''Max reconnection attempts reached'']
           else onErrorCalls st))"
proof -
  define st where "st = hook_run opts initialHookState evs"
  have n: "reconnectAttemptsRef st = attempts_made evs"
    unfolding st_def by (rule attempts_hook_run)
  have sched: "timers (scheduleReconnect opts st) =
      timers st @ [baseDelay opts * 2 ^ attempts_made evs]"
    using timers_scheduleReconnect [of opts st] n by simp
  have below: "real (attempts_made evs) < maxAttempts opts \<longrightarrow>
        timers (onerror opts st) = timers st @ [baseDelay opts * 2 ^ attempts_made evs] \<and>
        hookError (onerror opts st) = hookError st \<and>
        onErrorCalls (onerror opts st) = onErrorCalls st"
    using onerror_below_max [of st opts] n by simp
  have reached: "maxAttempts opts \<le> real (attempts_made evs) \<longrightarrow>
        timers (onerror opts st) = timers st \<and>
        hookError (onerror opts st) = Some ''Max reconnection attempts reached'' \<and>
        onErrorCalls (onerror opts st) =
          (if onError opts then onErrorCalls st @ [''Max reconnection attempts reached'']
           else onErrorCalls st)"
    using onerror_at_max [of opts st] n by simp
  from n sched below reached error_listener_NoData [of opts now st] show ?thesis
    unfolding Let_def st_def [symmetric] by blast
qed

lemma attempts_made_two_failures: "attempts_made two_failures = 2"
  by (simp add: attempts_made_def two_failures_def)

lemma default_options_values:
  "maxAttempts default_options = 5" "baseDelay default_options = 1000"
  by (simp_all add: maxAttempts_def baseDelay_def default_options_def)

lemma two_attempt_options_values:
  "maxAttempts two_attempt_options = 2" "baseDelay two_attempt_options = 500"
  "onError two_attempt_options"
  by (simp_all add: maxAttempts_def baseDelay_def two_attempt_options_def)

lemma two_failures_default:
  "timers (hook_run default_options initialHookState two_failures) = [1000, 1000, 2000]"
  by (simp add: hook_run_def two_failures_def initialHookState_def onerror_def onopen_def
      reconnect_timer_def connect_def scheduleReconnect_def call_onError_def Let_def
      maxAttempts_def baseDelay_def default_options_def)

lemma two_failures_two_attempt:
  "timers (hook_run two_attempt_options initialHookState two_failures) = [500, 500, 1000]"
  by (simp add: hook_run_def two_failures_def initialHookState_def onerror_def onopen_def
      reconnect_timer_def connect_def scheduleReconnect_def call_onError_def Let_def
      maxAttempts_def baseDelay_def two_attempt_options_def)

theorem reconnect_backoff_witness:
  "attempts_made two_failures = 2 \<and>
   real 2 < maxAttempts default_options \<and>
   timers (onerror default_options (hook_run default_options initialHookState two_failures)) =
     [1000, 1000, 2000, 4000] \<and>
   maxAttempts two_attempt_options \<le> real 2 \<and>
   timers (onerror two_attempt_options
      (hook_run two_attempt_options initialHookState two_failures)) = [500, 500, 1000] \<and>
   hookError (onerror two_attempt_options
      (hook_run two_attempt_options initialHookState two_failures)) =
     Some ''Max reconnection attempts reached''"
  using reconnect_backoff [of default_options two_failures 0]
    reconnect_backoff [of two_attempt_options two_failures 0]
  by (simp add: Let_def attempts_made_two_failures two_failures_default
      two_failures_two_attempt default_options_values two_attempt_options_values)

text \<open>
  A network error that reaches both the \<open>error\<close> listener and the error handler sets two
  timers of the same delay, as long as attempts are left.
\<close>

lemma both_handlers_schedule_twice:
  assumes "real (reconnectAttemptsRef st) < maxAttempts opts"
  shows "timers (onerror opts (error_listener opts now NoData st)) =
     timers st @ [baseDelay opts * 2 ^ reconnectAttemptsRef st,
                  baseDelay opts * 2 ^ reconnectAttemptsRef st]"
  using assms onerror_below_max(1) [of st opts] onerror_below_max(1) [of "onerror opts st" opts]
  by (simp add: error_listener_NoData del: error_listener.simps)

lemma both_handlers_schedule_twice_example:
  "timers (onerror default_options (error_listener default_options 0 NoData initialHookState)) =
     [1000, 1000]"
proof -
  have "real (reconnectAttemptsRef initialHookState) < maxAttempts default_options"
    by (simp add: initialHookState_def default_options_values)
  from both_handlers_schedule_twice [OF this, of 0] show ?thesis
    by (simp add: initialHookState_def default_options_values)
qed

text \<open>
  C2 fails on the code. With the default options (at most 5 attempts, base delay 1000) and
  a server that cannot be reached, every network error runs both error handlers, which set
  two timers of the same delay, and both timers run. The six attempts made wait 1000, 1000,
  4000, 4000, 16000 and 16000: the second attempt waits \<open>1000 * 2 ^ 0\<close> instead of
  \<open>1000 * 2 ^ 1\<close>, and the counter passes the limit of 5.
\<close>

theorem duplicate_handlers_break_backoff:
  "maxAttempts default_options = 5 \<and> baseDelay default_options = 1000 \<and>
   timers (hook_run default_options initialHookState failed_attempt) = [1000, 1000] \<and>
   reconnectAttemptsRef (hook_run default_options initialHookState failed_attempt) = 2 \<and>
   timers (hook_run default_options initialHookState three_failures) =
     [1000, 1000, 4000, 4000, 16000, 16000] \<and>
   reconnectAttemptsRef (hook_run default_options initialHookState three_failures) = 6"
  by (simp add: hook_run_def three_failures_def failed_attempt_def network_error_def
      initialHookState_def onerror_def reconnect_timer_def connect_def scheduleReconnect_def
      call_onError_def Let_def maxAttempts_def baseDelay_def default_options_def)

subsection \<open>Resetting the counter\<close>

text \<open>
  C8. After the open handler has run, the attempt counter is 0, so the next timer that
  \<open>scheduleReconnect\<close> sets has the base delay, and the error handler sets that timer
  whenever any attempt is allowed at all. A manual \<open>reconnect()\<close> is \<open>connect()\<close> run
  with the counter reset to 0, and leaves the counter at 0.
\<close>

theorem open_and_reconnect_reset_attempts:
  "reconnectAttemptsRef (onopen st) = 0 \<and>
   timers (scheduleReconnect opts (onopen st)) = timers st @ [baseDelay opts] \<and>
   (0 < maxAttempts opts \<longrightarrow> timers (onerror opts (onopen st)) = timers st @ [baseDelay opts]) \<and>
   reconnect opts throws st = connect opts throws (st\<lparr>reconnectAttemptsRef := 0\<rparr>) \<and>
   reconnectAttemptsRef (reconnect opts throws st) = 0"
  by (simp add: onopen_def scheduleReconnect_def onerror_def reconnect_def Let_def)

theorem open_and_reconnect_reset_attempts_witness:
  "reconnectAttemptsRef (hook_run default_options initialHookState two_failures) = 2 \<and>
   reconnectAttemptsRef (onopen (hook_run default_options initialHookState two_failures)) = 0 \<and>
   0 < maxAttempts default_options \<and>
   timers (onerror default_options
      (onopen (hook_run default_options initialHookState two_failures))) =
     [1000, 1000, 2000, 1000] \<and>
   reconnectAttemptsRef
     (reconnect default_options False
        (hook_run default_options initialHookState two_failures)) = 0"
  using open_and_reconnect_reset_attempts
    [of "hook_run default_options initialHookState two_failures" default_options False]
  by (simp add: attempts_hook_run attempts_made_two_failures two_failures_default
      default_options_values)

subsection \<open>Text chunks\<close>

lemma map_at_last:
  assumes "xs \<noteq> []"
  shows "map_at (int (length xs) - 1) f xs = butlast xs @ [f (last xs)]"
proof -
  from assms obtain ys y where xs: "xs = ys @ [y]"
    by (cases xs rule: rev_cases) auto
  show ?thesis
    unfolding xs by (simp add: map_at_conv)
qed

text \<open>
  C7. A partial chunk arriving when the last message is an assistant message appends its
  content to that message's content and leaves the number of messages unchanged; a partial
  chunk arriving otherwise, and every chunk that is not partial, appends one new assistant
  message whose content is the chunk's content.
\<close>

theorem handleTextChunk_messages:
  "(partial d \<and> messages st \<noteq> [] \<and> msg_type (last (messages st)) = Assistant \<longrightarrow>
      messages (handleTextChunk opts now d st) =
        butlast (messages st) @
          [(last (messages st))\<lparr>content := content (last (messages st)) @ chunk_content d\<rparr>] \<and>
      length (messages (handleTextChunk opts now d st)) = length (messages st)) \<and>
   (partial d \<and> \<not> (messages st \<noteq> [] \<and> msg_type (last (messages st)) = Assistant) \<longrightarrow>
      messages (handleTextChunk opts now d st) =
        messages st @ [new_assistant_message now (chunk_content d)]) \<and>
   (\<not> partial d \<longrightarrow>
      messages (handleTextChunk opts now d st) =
        messages st @ [new_assistant_message now (chunk_content d)]) \<and>
   msg_type (new_assistant_message now (chunk_content d)) = Assistant \<and>
   content (new_assistant_message now (chunk_content d)) = chunk_content d"
  by (auto simp: handleTextChunk_def addMessage_def new_assistant_message_def Let_def
      map_at_last)

theorem handleTextChunk_messages_witness:
  "map content (messages (handleTextChunk default_options 3 (chunk_lo True)
      (initialHookState\<lparr>messages := [user_hi, assistant_hel]\<rparr>))) = [''hi'', ''Hello''] \<and>
   map content (messages (handleTextChunk default_options 3 (chunk_lo True)
      (initialHookState\<lparr>messages := [user_hi]\<rparr>))) = [''hi'', ''lo''] \<and>
   map content (messages (handleTextChunk default_options 3 (chunk_lo False)
      (initialHookState\<lparr>messages := [user_hi, assistant_hel]\<rparr>))) = [''hi'', ''Hel'', ''lo'']"
  using handleTextChunk_messages [of "chunk_lo True"
      "initialHookState\<lparr>messages := [user_hi, assistant_hel]\<rparr>" default_options 3]
    handleTextChunk_messages [of "chunk_lo True"
      "initialHookState\<lparr>messages := [user_hi]\<rparr>" default_options 3]
    handleTextChunk_messages [of "chunk_lo False"
      "initialHookState\<lparr>messages := [user_hi, assistant_hel]\<rparr>" default_options 3]
  by (simp add: chunk_lo_def user_hi_def assistant_hel_def new_assistant_message_def)

section \<open>Properties of the session start-up\<close>

lemma createSession_effect:
  "localStorage (createSession api fr cs) =
     (case created_id fr of None \<Rightarrow> localStorage cs | Some new_id \<Rightarrow> Some new_id)"
  "sessionId (app (createSession api fr cs)) =
     (case created_id fr of None \<Rightarrow> sessionId (app cs) | Some new_id \<Rightarrow> Some new_id)"
  "requests (createSession api fr cs) = requests cs @ [POST (api @ ''/api/sessions'')]"
  by (simp_all add: createSession_def created_id_def dispatch_def Let_def
      split: FetchResult.splits ResponseBody.splits)

lemma not_found_not_ok: "status res = 404 \<or> status res = 410 \<Longrightarrow> \<not> ok res"
  by (auto simp: ok_def)

lemma validateOrCreate_rejected:
  assumes "localStorage cs = Some sid" "sid \<noteq> []"
    and "ctx = NetworkFailure \<or> (\<exists>res. ctx = Responded res \<and> \<not> ok res)"
  shows "validateOrCreate api ctx fr cs =
     createSession api fr
       (cs\<lparr>requests := requests cs @ [GET (context_url api sid)], localStorage := None\<rparr>)"
  using assms by (auto simp: validateOrCreate_def context_url_def Let_def)

lemma validateOrCreate_accepted:
  assumes "localStorage cs = Some sid" "sid \<noteq> []" "ctx = Responded res" "ok res"
  shows "validateOrCreate api ctx fr cs =
     dispatch (SET_SESSION_ID sid) (cs\<lparr>requests := requests cs @ [GET (context_url api sid)]\<rparr>)"
  using assms not_found_not_ok [of res]
  by (auto simp: validateOrCreate_def context_url_def Let_def)

text \<open>
  C9. Let a session id be saved. When the fetch-context request fails on the network or
  its response is not OK (status 404 and 410 are not OK), \<open>validateOrCreate\<close> removes the
  saved id from \<open>localStorage\<close> and calls \<open>createSession\<close>: after it, \<open>localStorage\<close> and the
  active session hold the id the POST returned, or nothing new when the POST gave none, and
  the old id was requested once. When the response is OK, the saved id becomes the active
  session, stays in \<open>localStorage\<close>, and no session is created.
\<close>

theorem stale_session_replaced:
  assumes "localStorage cs = Some sid" "sid \<noteq> []"
  shows
    "(ctx = NetworkFailure \<or> (\<exists>res. ctx = Responded res \<and> \<not> ok res) \<longrightarrow>
        validateOrCreate api ctx fr cs =
          createSession api fr
            (cs\<lparr>requests := requests cs @ [GET (context_url api sid)],
                localStorage := None\<rparr>) \<and>
        localStorage (validateOrCreate api ctx fr cs) = created_id fr \<and>
        sessionId (app (validateOrCreate api ctx fr cs)) =
          (case created_id fr of None \<Rightarrow> sessionId (app cs) | Some new_id \<Rightarrow> Some new_id) \<and>
        requests (validateOrCreate api ctx fr cs) =
          requests cs @ [GET (context_url api sid), POST (api @ ''/api/sessions'')]) \<and>
     (\<forall>res. ctx = Responded res \<and> (status res = 404 \<or> status res = 410) \<longrightarrow> \<not> ok res) \<and>
     (\<forall>res. ctx = Responded res \<and> ok res \<longrightarrow>
        sessionId (app (validateOrCreate api ctx fr cs)) = Some sid \<and>
        localStorage (validateOrCreate api ctx fr cs) = Some sid \<and>
        requests (validateOrCreate api ctx fr cs) =
          requests cs @ [GET (context_url api sid)])"
proof -
  have rejected:
    "ctx = NetworkFailure \<or> (\<exists>res. ctx = Responded res \<and> \<not> ok res) \<longrightarrow>
        validateOrCreate api ctx fr cs =
          createSession api fr
            (cs\<lparr>requests := requests cs @ [GET (context_url api sid)],
                localStorage := None\<rparr>) \<and>
        localStorage (validateOrCreate api ctx fr cs) = created_id fr \<and>
        sessionId (app (validateOrCreate api ctx fr cs)) =
          (case created_id fr of None \<Rightarrow> sessionId (app cs) | Some new_id \<Rightarrow> Some new_id) \<and>
        requests (validateOrCreate api ctx fr cs) =
          requests cs @ [GET (context_url api sid), POST (api @ ''/api/sessions'')]"
  proof
    assume "ctx = NetworkFailure \<or> (\<exists>res. ctx = Responded res \<and> \<not> ok res)"
    from validateOrCreate_rejected [OF assms this, of api fr]
    show "validateOrCreate api ctx fr cs =
          createSession api fr
            (cs\<lparr>requests := requests cs @ [GET (context_url api sid)],
                localStorage := None\<rparr>) \<and>
        localStorage (validateOrCreate api ctx fr cs) = created_id fr \<and>
        sessionId (app (validateOrCreate api ctx fr cs)) =
          (case created_id fr of None \<Rightarrow> sessionId (app cs) | Some new_id \<Rightarrow> Some new_id) \<and>
        requests (validateOrCreate api ctx fr cs) =
          requests cs @ [GET (context_url api sid), POST (api @ ''/api/sessions'')]"
      by (simp add: createSession_effect split: option.splits)
  qed
  have accepted: "\<forall>res. ctx = Responded res \<and> ok res \<longrightarrow>
        sessionId (app (validateOrCreate api ctx fr cs)) = Some sid \<and>
        localStorage (validateOrCreate api ctx fr cs) = Some sid \<and>
        requests (validateOrCreate api ctx fr cs) =
          requests cs @ [GET (context_url api sid)]"
    using validateOrCreate_accepted [OF assms, of ctx _ api fr] assms(1)
    by (simp add: dispatch_def)
  from rejected accepted not_found_not_ok show ?thesis by blast
qed

lemma saved_client_storage: "localStorage saved_client = Some ''sess_old''"
  by (simp add: saved_client_def)

theorem stale_session_replaced_witness:
  "localStorage saved_client = Some ''sess_old'' \<and>
   localStorage (validateOrCreate [] gone fresh_session saved_client) = Some ''sess_new'' \<and>
   sessionId (app (validateOrCreate [] gone fresh_session saved_client)) = Some ''sess_new'' \<and>
   requests (validateOrCreate [] gone fresh_session saved_client) =
     [GET ''/api/sessions/sess_old/context'', POST ''/api/sessions''] \<and>
   localStorage (validateOrCreate [] NetworkFailure NetworkFailure saved_client) = None \<and>
   sessionId (app (validateOrCreate [] fresh_session NetworkFailure saved_client)) =
     Some ''sess_old''"
  using stale_session_replaced [OF saved_client_storage, of gone "[]" fresh_session]
    stale_session_replaced [OF saved_client_storage, of NetworkFailure "[]" NetworkFailure]
    stale_session_replaced [OF saved_client_storage, of fresh_session "[]" NetworkFailure]
  by (simp add: gone_def fresh_session_def ok_def created_id_def context_url_def
      saved_client_def createSession_effect)

section \<open>Properties of the function-call renderer\<close>

lemma valid_false_truthy:
  "get_prop v ''valid'' = JBool False \<Longrightarrow> truthy v"
  by (cases v) simp_all

lemma ErrorBanner_items:
  "ErrorBanner title message suggestions =
     ErrorBannerElement title message (map suggestion_item (take 5 (array_items suggestions)))"
  by (cases suggestions) (simp_all add: ErrorBanner_def)

lemma lookup_show_product_details:
  "lookup_component ''show_product_details'' = Some ProductCard"
  by (simp add: lookup_component_def FunctionComponents_def)

text \<open>
  C5 as stated fails: a string \<open>error\<close> in the result is shown first. For a result with
  the error \<open>Lookup failed\<close> and a failed validation that has a message and suggestions of
  its own, the banner is titled \<open>Validation Error\<close>, carries \<open>Lookup failed\<close> and lists no
  suggestion.
\<close>

theorem generic_error_first_counterexample:
  "FunctionCallRenderer
     (details_call (JObj [(''error'', JStr ''Lookup failed''),
                          (''validation'', failed_validation)])) =
   ErrorBannerElement ''Validation Error'' (JStr ''Lookup failed'') []"
  by (simp add: FunctionCallRenderer_def details_call_def failed_validation_def trim_def
      is_space_def lookup_component_def FunctionComponents_def raw_result_def js_or_def
      ErrorBanner_def Let_def)

text \<open>
  C5, amended. Let the trimmed name be \<open>show_product_details\<close> and \<open>raw\<close> be the result's
  \<open>data\<close> if that is truthy and the result otherwise, and let \<open>raw.product\<close> be falsy or
  \<open>raw.validation.valid\<close> be \<open>false\<close>. Then the renderer returns an error banner, never the
  product card. If \<open>raw.error\<close> is a non-empty string, the banner carries that string and no
  suggestion. Otherwise its title is \<open>Invalid Product ID\<close>, its message is the validation's
  \<open>error\<close>, or a fixed text when that is falsy, and it lists the first five at most of the
  validation's \<open>suggestions\<close> when these are an array.
\<close>

theorem validation_error_banner:
  assumes nm: "trim (name fc) = ''show_product_details''"
    and raw: "raw = raw_result (result fc)"
    and bad: "\<not> truthy (get_prop raw ''product'') \<or>
              get_prop (get_prop raw ''validation'') ''valid'' = JBool False"
  shows
    "((\<exists>e. get_prop raw ''error'' = JStr e \<and> e \<noteq> []) \<longrightarrow>
        FunctionCallRenderer fc =
          ErrorBannerElement ''Validation Error'' (get_prop raw ''error'') []) \<and>
     (\<not> (\<exists>e. get_prop raw ''error'' = JStr e \<and> e \<noteq> []) \<longrightarrow>
        FunctionCallRenderer fc =
          ErrorBannerElement ''Invalid Product ID''
            (js_or (get_prop (get_prop raw ''validation'') ''error'')
               (JStr ''Product not found or not in recent searches.''))
            (map suggestion_item
               (take 5 (array_items (get_prop (get_prop raw ''validation'') ''suggestions''))))) \<and>
     length (map suggestion_item
       (take 5 (array_items (get_prop (get_prop raw ''validation'') ''suggestions'')))) \<le> 5 \<and>
     (\<forall>props. FunctionCallRenderer fc \<noteq> ComponentElement ProductCard props)"
proof -
  let ?validation = "get_prop raw ''validation''"
  let ?generic = "case get_prop raw ''error'' of JStr e \<Rightarrow> JStr e | _ \<Rightarrow> JNull"
  let ?banner = "ErrorBannerElement ''Invalid Product ID''
            (js_or (get_prop ?validation ''error'')
               (JStr ''Product not found or not in recent searches.''))
            (map suggestion_item (take 5 (array_items (get_prop ?validation ''suggestions''))))"
  have has: "\<not> truthy (get_prop raw ''product'') \<or>
      (truthy ?validation \<and> get_prop ?validation ''valid'' = JBool False)"
    using bad valid_false_truthy [of ?validation] by blast
  have render: "FunctionCallRenderer fc =
      (if truthy ?generic then ErrorBanner ''Validation Error'' ?generic JUndefined
       else ?banner)"
    using nm raw has
    by (simp add: FunctionCallRenderer_def lookup_show_product_details Let_def
        ErrorBanner_items)
  have generic: "truthy ?generic \<longleftrightarrow> (\<exists>e. get_prop raw ''error'' = JStr e \<and> e \<noteq> [])"
    by (cases "get_prop raw ''error''") simp_all
  have same: "truthy ?generic \<Longrightarrow> ?generic = get_prop raw ''error''"
    by (cases "get_prop raw ''error''") simp_all
  have first: "(\<exists>e. get_prop raw ''error'' = JStr e \<and> e \<noteq> []) \<longrightarrow>
      FunctionCallRenderer fc =
        ErrorBannerElement ''Validation Error'' (get_prop raw ''error'') []"
    using render generic same by (simp add: ErrorBanner_items)
  have second: "\<not> (\<exists>e. get_prop raw ''error'' = JStr e \<and> e \<noteq> []) \<longrightarrow>
      FunctionCallRenderer fc = ?banner"
  proof
    assume "\<not> (\<exists>e. get_prop raw ''error'' = JStr e \<and> e \<noteq> [])"
    with generic have "\<not> truthy ?generic" by blast
    with render show "FunctionCallRenderer fc = ?banner" by simp
  qed
  have never: "\<forall>props. FunctionCallRenderer fc \<noteq> ComponentElement ProductCard props"
    using first second by (cases "\<exists>e. get_prop raw ''error'' = JStr e \<and> e \<noteq> []") auto
  from first second never show ?thesis by simp
qed

lemma details_call_name: "trim (name (details_call res)) = ''show_product_details''"
  by (simp add: details_call_def trim_def is_space_def)

theorem validation_error_banner_witness:
  "trim (name (details_call failed_result)) = ''show_product_details'' \<and>
   get_prop (get_prop failed_result ''validation'') ''valid'' = JBool False \<and>
   FunctionCallRenderer (details_call failed_result) =
     ErrorBannerElement ''Invalid Product ID''
       (JStr ''Product prod_999 is not in your recent searches'')
       [Text (JStr ''prod_001''), Text (JStr ''prod_002''), Text (JStr ''prod_003''),
        Text (JStr ''prod_004''), Text (JStr ''prod_005'')]"
proof -
  have raw: "failed_result = raw_result (result (details_call failed_result))"
    by (simp add: details_call_def raw_result_def js_or_def failed_result_def)
  have valid: "get_prop (get_prop failed_result ''validation'') ''valid'' = JBool False"
    by (simp add: failed_result_def failed_validation_def)
  then have bad: "\<not> truthy (get_prop failed_result ''product'') \<or>
      get_prop (get_prop failed_result ''validation'') ''valid'' = JBool False"
    by simp
  have no_error: "\<not> (\<exists>e. get_prop failed_result ''error'' = JStr e \<and> e \<noteq> [])"
    by (simp add: failed_result_def)
  have "FunctionCallRenderer (details_call failed_result) =
     ErrorBannerElement ''Invalid Product ID''
       (js_or (get_prop (get_prop failed_result ''validation'') ''error'')
          (JStr ''Product not found or not in recent searches.''))
       (map suggestion_item
          (take 5 (array_items (get_prop (get_prop failed_result ''validation'') ''suggestions''))))"
    using validation_error_banner [OF details_call_name raw bad] no_error by blast
  then have "FunctionCallRenderer (details_call failed_result) =
     ErrorBannerElement ''Invalid Product ID''
       (JStr ''Product prod_999 is not in your recent searches'')
       [Text (JStr ''prod_001''), Text (JStr ''prod_002''), Text (JStr ''prod_003''),
        Text (JStr ''prod_004''), Text (JStr ''prod_005'')]"
    by (simp add: failed_result_def failed_validation_def js_or_def suggestion_item_def)
  with valid details_call_name [of failed_result] show ?thesis by simp
qed

subsection \<open>Names the table does not list\<close>

lemma str_includes_cart_constructor: "\<not> str_includes ''constructor'' ''cart''"
  by simp

text \<open>
  C6 fails on the code for a name that \<open>Object.prototype\<close> defines. The name
  \<open>constructor\<close> is none of the six names of the table and does not contain \<open>cart\<close>, yet
  the lookup finds the inherited property, and the renderer returns an element of that
  value instead of the fallback.
\<close>

theorem inherited_name_not_fallback:
  "map_of FunctionComponents (trim (name constructor_call)) = None \<and>
   str_includes (trim (name constructor_call)) ''cart'' = False \<and>
   FunctionCallRenderer constructor_call = ComponentElement (Inherited ''constructor'') []"
  by (simp add: FunctionCallRenderer_def constructor_call_def trim_def is_space_def
      lookup_component_def FunctionComponents_def Object_prototype_properties_def
      raw_result_def js_or_def Let_def)

theorem inherited_name_not_fallback_witness:
  "FunctionCallRenderer constructor_call \<noteq>
     UnknownFunctionCall (name constructor_call) (Stringified (parameters constructor_call))"
  using inherited_name_not_fallback by simp

text \<open>
  For every other name that the table does not list and that does not contain \<open>cart\<close>, the
  renderer returns the fallback, showing the name as given and the parameters.
\<close>

lemma unknown_name_fallback:
  assumes "map_of FunctionComponents (trim (name fc)) = None"
    and "trim (name fc) \<notin> set Object_prototype_properties"
    and "\<not> str_includes (trim (name fc)) ''cart''"
  shows "FunctionCallRenderer fc = UnknownFunctionCall (name fc) (Stringified (parameters fc))"
  using assms by (simp add: FunctionCallRenderer_def lookup_component_def Let_def)

lemma unknown_name_fallback_example:
  "FunctionCallRenderer unknown_call =
     UnknownFunctionCall '' unknown_function'' (Stringified (JObj []))"
proof -
  have "trim (name unknown_call) = ''unknown_function''"
    by (simp add: unknown_call_def trim_def is_space_def)
  then have "FunctionCallRenderer unknown_call =
      UnknownFunctionCall (name unknown_call) (Stringified (parameters unknown_call))"
    by (intro unknown_name_fallback)
      (simp_all add: FunctionComponents_def Object_prototype_properties_def)
  then show ?thesis by (simp add: unknown_call_def)
qed

end
